theory Spec2Isabelle
  imports Main "HOL-Library.Word"
begin

section \<open>Guild availability bookkeeping (core/cache_guild.go)\<close>

text \<open>
  \<^verbatim>\<open>guildCacheImpl\<close> holds the guild map and two Go sets
  (\<^verbatim>\<open>map[discord.Snowflake]struct{}\<close>): the unready ("pending") guilds and the
  unavailable guilds. \<^verbatim>\<open>discord.Snowflake\<close> is a string type in this file's package.
  The guild objects themselves are not inspected by the operations below, so their type
  is a parameter. Every method takes its own mutex and releases it on return; the only
  nested acquisition (\<^verbatim>\<open>SetUnavailable\<close> calling \<^verbatim>\<open>Remove\<close>) is on two
  different mutexes, so in a sequential run the locks have no effect and are left out.
  The methods of this file take the guild id only; there is no shard argument.
\<close>

type_synonym Snowflake = string

record 'g guildCacheImpl =
  guilds :: "Snowflake \<rightharpoonup> 'g"
  unreadyGuilds :: "Snowflake set"
  unavailableGuilds :: "Snowflake set"

definition NewGuildCache :: "'g guildCacheImpl" where
  "NewGuildCache = \<lparr>guilds = Map.empty, unreadyGuilds = {}, unavailableGuilds = {}\<rparr>"

definition Remove :: "Snowflake \<Rightarrow> 'g guildCacheImpl \<Rightarrow> 'g guildCacheImpl" where
  "Remove id' c = c\<lparr>guilds := (guilds c)(id' := None)\<rparr>"

definition SetReady :: "Snowflake \<Rightarrow> 'g guildCacheImpl \<Rightarrow> 'g guildCacheImpl" where
  "SetReady guildID c = c\<lparr>unreadyGuilds := unreadyGuilds c - {guildID}\<rparr>"

definition SetUnready :: "Snowflake \<Rightarrow> 'g guildCacheImpl \<Rightarrow> 'g guildCacheImpl" where
  "SetUnready guildID c = c\<lparr>unreadyGuilds := insert guildID (unreadyGuilds c)\<rparr>"

definition IsUnready :: "Snowflake \<Rightarrow> 'g guildCacheImpl \<Rightarrow> bool" where
  "IsUnready guildID c = (guildID \<in> unreadyGuilds c)"

definition SetUnavailable :: "Snowflake \<Rightarrow> 'g guildCacheImpl \<Rightarrow> 'g guildCacheImpl" where
  "SetUnavailable id' c =
     (let c1 = Remove id' c
      in c1\<lparr>unavailableGuilds := insert id' (unavailableGuilds c1)\<rparr>)"

definition SetAvailable :: "Snowflake \<Rightarrow> 'g guildCacheImpl \<Rightarrow> 'g guildCacheImpl" where
  "SetAvailable guildID c = c\<lparr>unavailableGuilds := unavailableGuilds c - {guildID}\<rparr>"

definition IsUnavailable :: "Snowflake \<Rightarrow> 'g guildCacheImpl \<Rightarrow> bool" where
  "IsUnavailable guildID c = (guildID \<in> unavailableGuilds c)"

text \<open>
  A run of the tracker is a list of calls of the four mutating methods, applied in order.
\<close>

datatype avail_call =
    CallSetReady Snowflake
  | CallSetUnready Snowflake
  | CallSetUnavailable Snowflake
  | CallSetAvailable Snowflake

fun apply_call :: "avail_call \<Rightarrow> 'g guildCacheImpl \<Rightarrow> 'g guildCacheImpl" where
  "apply_call (CallSetReady p) c = SetReady p c"
| "apply_call (CallSetUnready p) c = SetUnready p c"
| "apply_call (CallSetUnavailable p) c = SetUnavailable p c"
| "apply_call (CallSetAvailable p) c = SetAvailable p c"

fun run_calls :: "avail_call list \<Rightarrow> 'g guildCacheImpl \<Rightarrow> 'g guildCacheImpl" where
  "run_calls [] c = c"
| "run_calls (x # xs) c = run_calls xs (apply_call x c)"

text \<open>
  The caller-side discipline under which the two sets stay disjoint: a guild is marked
  unready only while it is not unavailable, and unavailable only while it is not unready.
  The methods themselves do not check this.
\<close>

fun call_keeps_apart :: "avail_call \<Rightarrow> 'g guildCacheImpl \<Rightarrow> bool" where
  "call_keeps_apart (CallSetUnready p) c = (\<not> IsUnavailable p c)"
| "call_keeps_apart (CallSetUnavailable p) c = (\<not> IsUnready p c)"
| "call_keeps_apart _ c = True"

fun calls_keep_apart :: "avail_call list \<Rightarrow> 'g guildCacheImpl \<Rightarrow> bool" where
  "calls_keep_apart [] c = True"
| "calls_keep_apart (x # xs) c =
     (call_keeps_apart x c \<and> calls_keep_apart xs (apply_call x c))"

definition both_marked :: "Snowflake \<Rightarrow> 'g guildCacheImpl \<Rightarrow> bool" where
  "both_marked p c = (IsUnready p c \<and> IsUnavailable p c)"


section \<open>Outcomes of a call\<close>

text \<open>
  A Go call either returns (with a value and the state it leaves), blocks for ever
  (a goroutine waiting on a mutex that is never released), or panics. The state carried by
  \<open>Blocks\<close> and \<open>Panics\<close> is the state at the point where the call stopped.
\<close>

datatype ('a, 's) outcome = Returns 'a 's | Blocks 's | Panics 's

fun andThen :: "('a, 's) outcome \<Rightarrow> ('a \<Rightarrow> 's \<Rightarrow> ('b, 's) outcome) \<Rightarrow> ('b, 's) outcome" where
  "andThen (Returns a s) f = f a s"
| "andThen (Blocks s) f = Blocks s"
| "andThen (Panics s) f = Panics s"

fun state_of :: "('a, 's) outcome \<Rightarrow> 's" where
  "state_of (Returns a s) = s"
| "state_of (Blocks s) = s"
| "state_of (Panics s) = s"


section \<open>Member chunk correlation (bot/member_chunking_manager.go)\<close>

text \<open>
  \<^verbatim>\<open>snowflake.ID\<close> is a \<^verbatim>\<open>uint64\<close>; Go's \<^verbatim>\<open>int\<close> counters are 64-bit words.
  A member carries its user id; the remaining fields of \<^verbatim>\<open>discord.Member\<close> are
  not read by this file and are summarised by the nick.
\<close>

record Member =
  User_ID :: "64 word"
  Nick :: string

record GatewayEventGuildMembersChunk =
  GuildID :: "64 word"
  Members :: "Member list"
  ChunkCount :: "64 word"
  Nonce :: string

text \<open>
  A channel is named by a number. The store keeps, for every channel, the members its
  receiver has taken so far and whether it has been closed. The member channel is
  unbuffered: a send completes when the receiver takes the value, and the model takes the
  receiver to be waiting. Sending on a closed channel and closing a closed channel panic.
\<close>

record member_chan =
  received :: "Member list"
  closed :: bool

record chunkingRequest =
  nonce :: string
  memberChan :: nat
  memberFilterFunc :: "(Member \<Rightarrow> bool) option"
  chunks :: "64 word"

text \<open>
  The manager maps each open nonce to its request. \<open>members_cache\<close> stands for
  \<^verbatim>\<open>client.Caches().Members()\<close>, keyed by guild id and user id.
\<close>

record memberChunkingManagerImpl =
  chunkingRequests :: "string \<rightharpoonup> chunkingRequest"
  chans :: "nat \<Rightarrow> member_chan"
  members_cache :: "(64 word \<times> 64 word) \<rightharpoonup> Member"

definition chan_send ::
  "memberChunkingManagerImpl \<Rightarrow> nat \<Rightarrow> Member \<Rightarrow> (unit, memberChunkingManagerImpl) outcome" where
  "chan_send m ch member =
     (if closed (chans m ch) then Panics m
      else Returns () (m\<lparr>chans := (chans m)(ch := (chans m ch)\<lparr>received := received (chans m ch) @ [member]\<rparr>)\<rparr>))"

definition chan_close ::
  "memberChunkingManagerImpl \<Rightarrow> nat \<Rightarrow> (unit, memberChunkingManagerImpl) outcome" where
  "chan_close m ch =
     (if closed (chans m ch) then Panics m
      else Returns () (m\<lparr>chans := (chans m)(ch := (chans m ch)\<lparr>closed := True\<rparr>)\<rparr>))"

definition cleanupRequest ::
  "memberChunkingManagerImpl \<Rightarrow> chunkingRequest \<Rightarrow> (unit, memberChunkingManagerImpl) outcome" where
  "cleanupRequest m request =
     andThen (chan_close m (memberChan request))
       (\<lambda>_ m1. Returns () (m1\<lparr>chunkingRequests := (chunkingRequests m1)(nonce request := None)\<rparr>))"

text \<open>The loop over \<^verbatim>\<open>payload.Members\<close> in \<^verbatim>\<open>HandleChunk\<close>.\<close>

fun forward_members ::
  "memberChunkingManagerImpl \<Rightarrow> 64 word \<Rightarrow> chunkingRequest \<Rightarrow> Member list
     \<Rightarrow> (unit, memberChunkingManagerImpl) outcome" where
  "forward_members m gid request [] = Returns () m"
| "forward_members m gid request (member # rest) =
     (let m1 = m\<lparr>members_cache := (members_cache m)((gid, User_ID member) \<mapsto> member)\<rparr>
      in case memberFilterFunc request of
           Some f \<Rightarrow>
             (if \<not> f member then forward_members m1 gid request rest
              else andThen (chan_send m1 (memberChan request) member)
                     (\<lambda>_ m2. forward_members m2 gid request rest))
         | None \<Rightarrow>
             andThen (chan_send m1 (memberChan request) member)
               (\<lambda>_ m2. forward_members m2 gid request rest))"

definition HandleChunk ::
  "memberChunkingManagerImpl \<Rightarrow> GatewayEventGuildMembersChunk
     \<Rightarrow> (unit, memberChunkingManagerImpl) outcome" where
  "HandleChunk m payload =
     (case chunkingRequests m (Nonce payload) of
        None \<Rightarrow> Returns () m
      | Some request \<Rightarrow>
          andThen (forward_members m (GuildID payload) request (Members payload))
            (\<lambda>_ m1.
               if chunks request = ChunkCount payload - 1 then cleanupRequest m1 request
               else Returns ()
                      (m1\<lparr>chunkingRequests :=
                            (chunkingRequests m1)(Nonce payload \<mapsto>
                               request\<lparr>chunks := chunks request + 1\<rparr>)\<rparr>)))"


definition demo_request :: chunkingRequest where
  "demo_request = \<lparr>nonce = ''abc'', memberChan = 0, memberFilterFunc = None, chunks = 0\<rparr>"

definition demo_manager :: memberChunkingManagerImpl where
  "demo_manager =
     \<lparr>chunkingRequests = [''abc'' \<mapsto> demo_request],
      chans = (\<lambda>_. \<lparr>received = [], closed = False\<rparr>),
      members_cache = Map.empty\<rparr>"

definition demo_chunk :: "string \<Rightarrow> GatewayEventGuildMembersChunk" where
  "demo_chunk n =
     \<lparr>GuildID = 9, Members = [\<lparr>User_ID = 1, Nick = ''ann''\<rparr>], ChunkCount = 1, Nonce = n\<rparr>"


section \<open>The gateway session (gateway/gateway_impl.go)\<close>

subsection \<open>Declarations the file uses\<close>

text \<open>
  Modelled from the spec: the \<^verbatim>\<open>Status\<close> constants, which are declared elsewhere in
  package \<^verbatim>\<open>gateway\<close>; section 4.1 of the specification lists the states in this
  order.
\<close>

datatype Status =
    StatusUnconnected
  | StatusConnecting
  | StatusWaitingForHello
  | StatusIdentifying
  | StatusResuming
  | StatusWaitingForReady
  | StatusReady
  | StatusDisconnected

text \<open>
  The two sentinel errors of package \<^verbatim>\<open>discord\<close> that the file compares against, and
  any other error value (dial, marshal, rate limiter, context and write errors).
\<close>

datatype error =
    ErrShardNotConnected
  | ErrGatewayAlreadyConnected
  | ErrOther string

text \<open>
  Modelled from the spec: the opcodes of package \<^verbatim>\<open>discord\<close>. The file names Hello,
  Dispatch, Heartbeat, Reconnect, InvalidSession, HeartbeatACK, Identify and Resume, the
  chunking manager names RequestGuildMembers; presence and voice state updates are the
  other application commands the specification lists.
\<close>

datatype GatewayOpcode =
    GatewayOpcodeDispatch
  | GatewayOpcodeHeartbeat
  | GatewayOpcodeIdentify
  | GatewayOpcodePresenceUpdate
  | GatewayOpcodeVoiceStateUpdate
  | GatewayOpcodeResume
  | GatewayOpcodeReconnect
  | GatewayOpcodeRequestGuildMembers
  | GatewayOpcodeInvalidSession
  | GatewayOpcodeHello
  | GatewayOpcodeHeartbeatACK

text \<open>
  Outbound message data. Identify carries the bot token and the optional shard pair (its
  other fields are copied from the configuration and play no part here); Resume carries
  token, session id and sequence; Heartbeat carries the last sequence or null; the data of
  an application command (presence update, voice state update, request guild members) is
  opaque.
\<close>

datatype GatewayMessageData =
    GatewayMessageDataIdentify string "(int \<times> int) option"
  | GatewayMessageDataResume string string int
  | GatewayMessageDataHeartbeat "int option"
  | GatewayMessageDataCommand string

text \<open>
  What is handed to \<^verbatim>\<open>conn.WriteMessage\<close>: a text frame with the encoded
  \<^verbatim>\<open>{op, d}\<close> message, or a close frame with code and reason.
\<close>

datatype frame =
    TextMessage GatewayOpcode GatewayMessageData
  | CloseMessage int string

text \<open>The close codes of the websocket library (RFC 6455) that the file uses.\<close>

definition CloseNormalClosure :: int where "CloseNormalClosure = 1000"
definition CloseGoingAway :: int where "CloseGoingAway = 1001"
definition CloseServiceRestart :: int where "CloseServiceRestart = 1012"

datatype rate_limiter_call = RLReset | RLClose | RLWait | RLUnlock

datatype goroutine = GoListen nat | GoHeartbeat | GoReconnect | GoCloseHandler

text \<open>
  The state of a \<^verbatim>\<open>gatewayImpl\<close>. \<open>SessionID\<close>, \<open>LastSequenceReceived\<close>,
  \<open>ShardID\<close>, \<open>ShardCount\<close>, \<open>MaxReconnectTries\<close> and \<open>AutoReconnect\<close> are the
  fields of \<^verbatim>\<open>g.config\<close> that the modelled methods use; \<open>closeHandlerFunc\<close> tells
  whether the close handler is set (not \<^verbatim>\<open>nil\<close>). \<open>conn\<close> is the connection handle
  (\<open>None\<close> is \<^verbatim>\<open>nil\<close>); \<open>connMu\<close> tells whether the mutex is held;
  \<open>heartbeatTicker\<close> is the period of the running ticker (\<open>None\<close> is \<^verbatim>\<open>nil\<close>).
  Durations are 64-bit nanosecond counts; instants are integers. Sequence numbers, shard
  numbers and the retry bound are Go integers that the modelled code only stores, compares
  and passes on, kept as unbounded integers.
  The last five fields record what the session has done to its collaborators: frames
  handed to \<^verbatim>\<open>WriteMessage\<close> (with the connection they went to), connections closed,
  calls to the rate limiter, goroutines started, and events passed to the event handler.
\<close>

record gatewayImpl =
  token :: string
  ShardID :: int
  ShardCount :: int
  MaxReconnectTries :: int
  AutoReconnect :: bool
  closeHandlerFunc :: bool
  SessionID :: "string option"
  LastSequenceReceived :: "int option"
  conn :: "nat option"
  connMu :: bool
  heartbeatTicker :: "64 word option"
  status :: Status
  heartbeatInterval :: "64 word"
  lastHeartbeatSent :: int
  lastHeartbeatReceived :: int
  wire :: "(nat \<times> frame) list"
  closed_conns :: "nat list"
  rateLimiter :: "rate_limiter_call list"
  spawned :: "goroutine list"
  handled :: "(string \<times> int) list"

text \<open>
  What the outside world answers during one call: the clock, the dialer, the JSON
  encoder, the rate limiter's \<^verbatim>\<open>Wait\<close> and the connection's \<^verbatim>\<open>WriteMessage\<close>
  for a text frame. Each modelled method asks each of them at most once.
\<close>

record env =
  now :: int
  dial :: "error + nat"
  marshal_err :: "error option"
  wait_err :: "error option"
  write_err :: "error option"

subsection \<open>Closing\<close>

text \<open>
  \<^verbatim>\<open>CloseWithCode\<close> stops the ticker before it takes the mutex. \<^verbatim>\<open>sync.Mutex\<close>
  is not reentrant: locking a held mutex blocks. The result of writing the close frame
  is only logged.
\<close>

definition CloseWithCode :: "gatewayImpl \<Rightarrow> int \<Rightarrow> string \<Rightarrow> (unit, gatewayImpl) outcome" where
  "CloseWithCode g code message =
     (let g1 = (if heartbeatTicker g \<noteq> None then g\<lparr>heartbeatTicker := None\<rparr> else g)
      in if connMu g1 then Blocks g1
         else (case conn g1 of
                 None \<Rightarrow> Returns () g1
               | Some c \<Rightarrow>
                   (let g2 = g1\<lparr>rateLimiter := rateLimiter g1 @ [RLClose],
                                wire := wire g1 @ [(c, CloseMessage code message)],
                                closed_conns := closed_conns g1 @ [c],
                                conn := None\<rparr>
                    in if code = CloseNormalClosure \<or> code = CloseGoingAway
                       then Returns () (g2\<lparr>SessionID := None, LastSequenceReceived := None\<rparr>)
                       else Returns () g2)))"

definition Close :: "gatewayImpl \<Rightarrow> (unit, gatewayImpl) outcome" where
  "Close g = CloseWithCode g CloseNormalClosure ''Shutting down''"

subsection \<open>Opening\<close>

text \<open>
  \<^verbatim>\<open>Open\<close> holds the mutex until it returns (the unlock is deferred). On a dial
  error it calls \<^verbatim>\<open>g.Close\<close> while still holding it.
\<close>

definition Open :: "gatewayImpl \<Rightarrow> env \<Rightarrow> (error option, gatewayImpl) outcome" where
  "Open g e =
     (if connMu g then Blocks g
      else (let g1 = g\<lparr>connMu := True\<rparr>
            in if conn g1 \<noteq> None
               then Returns (Some ErrGatewayAlreadyConnected) (g1\<lparr>connMu := False\<rparr>)
               else (let g2 = g1\<lparr>status := StatusConnecting, lastHeartbeatSent := now e\<rparr>
                     in case dial e of
                          Inl err \<Rightarrow>
                            andThen (Close g2) (\<lambda>_ g3. Returns (Some err) (g3\<lparr>connMu := False\<rparr>))
                        | Inr c \<Rightarrow>
                            Returns None
                              (g2\<lparr>conn := Some c,
                                  rateLimiter := rateLimiter g2 @ [RLReset],
                                  status := StatusWaitingForHello,
                                  spawned := spawned g2 @ [GoListen c],
                                  connMu := False\<rparr>))))"

subsection \<open>Sending\<close>

text \<open>
  \<^verbatim>\<open>send\<close>, like \<^verbatim>\<open>CloseWithCode\<close>, takes the mutex on entry and releases
  it when it returns, and calls nothing that takes it again; so the mutex is free after
  the call whenever it was free before, and only the test on entry is written out.
  The rate limiter's \<^verbatim>\<open>Unlock\<close> is deferred and runs after the write.
\<close>

definition send :: "gatewayImpl \<Rightarrow> env \<Rightarrow> frame \<Rightarrow> (error option, gatewayImpl) outcome" where
  "send g e data =
     (if connMu g then Blocks g
      else (case conn g of
              None \<Rightarrow> Returns (Some ErrShardNotConnected) g
            | Some c \<Rightarrow>
                (let g1 = g\<lparr>rateLimiter := rateLimiter g @ [RLWait]\<rparr>
                 in case wait_err e of
                      Some err \<Rightarrow> Returns (Some err) g1
                    | None \<Rightarrow>
                        Returns (write_err e)
                          (g1\<lparr>wire := wire g1 @ [(c, data)],
                              rateLimiter := rateLimiter g1 @ [RLUnlock]\<rparr>))))"

definition Send ::
  "gatewayImpl \<Rightarrow> env \<Rightarrow> GatewayOpcode \<Rightarrow> GatewayMessageData \<Rightarrow> (error option, gatewayImpl) outcome" where
  "Send g e op d =
     (case marshal_err e of
        Some err \<Rightarrow> Returns (Some err) g
      | None \<Rightarrow> send g e (TextMessage op d))"

subsection \<open>Heartbeats\<close>

text \<open>
  \<^verbatim>\<open>time.NewTicker\<close> panics on a duration that is not positive; otherwise the ticker
  ticks once per period, the first time one period after its creation.
  \<open>heartbeat\<close> is the part of the heartbeat goroutine before its loop; every tick of
  the loop then calls \<open>sendHeartbeat\<close>. The goroutine reads \<^verbatim>\<open>g.heartbeatInterval\<close>
  when it starts to run.
\<close>

definition NewTicker :: "64 word \<Rightarrow> 64 word option" where
  "NewTicker d = (if sint d \<le> 0 then None else Some d)"

definition tick_due :: "64 word \<Rightarrow> nat \<Rightarrow> int" where
  "tick_due period k = (int k + 1) * sint period"

definition heartbeat :: "gatewayImpl \<Rightarrow> (unit, gatewayImpl) outcome" where
  "heartbeat g =
     (case NewTicker (heartbeatInterval g) of
        None \<Rightarrow> Panics g
      | Some t \<Rightarrow> Returns () (g\<lparr>heartbeatTicker := Some t\<rparr>))"

definition first_beat_due :: "gatewayImpl \<Rightarrow> int option" where
  "first_beat_due g = map_option (\<lambda>t. tick_due t 0) (heartbeatTicker g)"

definition sendHeartbeat :: "gatewayImpl \<Rightarrow> env \<Rightarrow> (unit, gatewayImpl) outcome" where
  "sendHeartbeat g e =
     andThen (Send g e GatewayOpcodeHeartbeat (GatewayMessageDataHeartbeat (LastSequenceReceived g)))
       (\<lambda>err g1.
          if err \<noteq> None \<and> err \<noteq> Some ErrShardNotConnected
          then andThen (CloseWithCode g1 CloseServiceRestart ''heartbeat timeout'')
                 (\<lambda>_ g2. Returns () (g2\<lparr>spawned := spawned g2 @ [GoReconnect]\<rparr>))
          else Returns () (g1\<lparr>lastHeartbeatSent := now e\<rparr>))"

subsection \<open>Identify and Resume\<close>

definition identify :: "gatewayImpl \<Rightarrow> env \<Rightarrow> (unit, gatewayImpl) outcome" where
  "identify g e =
     (let g1 = g\<lparr>status := StatusIdentifying\<rparr>;
          shard = (if ShardCount g1 > 1 then Some (ShardID g1, ShardCount g1) else None)
      in andThen (Send g1 e GatewayOpcodeIdentify (GatewayMessageDataIdentify (token g1) shard))
           (\<lambda>_ g2. Returns () (g2\<lparr>status := StatusWaitingForReady\<rparr>)))"

text \<open>\<^verbatim>\<open>resume\<close> dereferences both pointers; a nil pointer would panic.\<close>

definition resume :: "gatewayImpl \<Rightarrow> env \<Rightarrow> (unit, gatewayImpl) outcome" where
  "resume g e =
     (let g1 = g\<lparr>status := StatusResuming\<rparr>
      in case SessionID g1 of
           None \<Rightarrow> Panics g1
         | Some sid \<Rightarrow>
             (case LastSequenceReceived g1 of
                None \<Rightarrow> Panics g1
              | Some sq \<Rightarrow>
                  andThen (Send g1 e GatewayOpcodeResume (GatewayMessageDataResume (token g1) sid sq))
                    (\<lambda>_ g2. Returns () g2)))"

subsection \<open>Reconnecting\<close>

text \<open>
  Every caller in the file passes \<^verbatim>\<open>context.TODO()\<close>, which is never done, so the
  timer branch of the \<^verbatim>\<open>select\<close> is the one taken. \<open>es n\<close> is what the outside
  world answers during attempt \<open>n\<close>.
\<close>

function reconnectTry ::
  "gatewayImpl \<Rightarrow> (int \<Rightarrow> env) \<Rightarrow> int \<Rightarrow> (error option, gatewayImpl) outcome" where
  "reconnectTry g es n =
     (if n \<ge> MaxReconnectTries g - 1
      then Returns (Some (ErrOther ''failed to reconnect. exceeded max reconnect tries'')) g
      else (case Open g (es n) of
              Returns None g1 \<Rightarrow> Returns None g1
            | Returns (Some err) g1 \<Rightarrow>
                if err = ErrGatewayAlreadyConnected then Returns (Some err) g1
                else reconnectTry (g1\<lparr>status := StatusDisconnected\<rparr>) es (n + 1)
            | Blocks g1 \<Rightarrow> Blocks g1
            | Panics g1 \<Rightarrow> Panics g1))"
  by pat_completeness auto
termination
proof (relation "measure (\<lambda>(g, es, n). nat (MaxReconnectTries g - 1 - n))")
  show "wf (measure (\<lambda>(g, es, n). nat (MaxReconnectTries g - 1 - n)))"
    by simp
next
  fix g :: gatewayImpl and es :: "int \<Rightarrow> env" and n :: int
    and x :: "(error option, gatewayImpl) outcome" and r :: "error option"
    and g1 :: gatewayImpl and err :: error
  assume "\<not> MaxReconnectTries g - 1 \<le> n" and "Open g (es n) = Returns r g1"
    and "r = Some err" and "err \<noteq> ErrGatewayAlreadyConnected"
  then show "((g1\<lparr>status := StatusDisconnected\<rparr>, es, n + 1), (g, es, n))
              \<in> measure (\<lambda>(g, es, n). nat (MaxReconnectTries g - 1 - n))"
    by (auto simp: Open_def Let_def Close_def CloseWithCode_def split: if_splits sum.splits)
qed

declare reconnectTry.simps [simp del]

subsection \<open>One inbound message in the listen loop\<close>

text \<open>
  A decoded inbound message: Hello with the heartbeat interval in milliseconds; Dispatch
  with event type, sequence and, for a Ready event, the session id decoded from the data
  (\<open>None\<close> when decoding fails); Heartbeat; Reconnect; InvalidSession with its
  resumable flag; HeartbeatACK. \<open>listen_message\<close> is the body of the
  \<^verbatim>\<open>switch event.Op\<close>; it says whether the loop goes on.
\<close>

datatype inbound =
    Hello "64 word"
  | Dispatch string int "string option"
  | HeartbeatRequest
  | Reconnect
  | InvalidSession bool
  | HeartbeatACK

datatype loop_ctl = Continue | Break

definition GatewayEventTypeReady :: string where
  "GatewayEventTypeReady = ''READY''"

fun listen_message :: "gatewayImpl \<Rightarrow> env \<Rightarrow> inbound \<Rightarrow> (loop_ctl, gatewayImpl) outcome" where
  "listen_message g e (Hello ms) =
     (let g1 = g\<lparr>lastHeartbeatReceived := now e, spawned := spawned g @ [GoHeartbeat]\<rparr>;
          g2 = g1\<lparr>heartbeatInterval := ms * 1000000\<rparr>
      in andThen (if LastSequenceReceived g2 = None \<or> SessionID g2 = None
                  then identify g2 e else resume g2 e)
           (\<lambda>_ g3. Returns Continue g3))"
| "listen_message g e (Dispatch t s ready) =
     (let g1 = g\<lparr>LastSequenceReceived := Some s\<rparr>
      in if t = GatewayEventTypeReady
         then (case ready of
                 None \<Rightarrow> Returns Continue g1
               | Some sid \<Rightarrow>
                   Returns Continue
                     (g1\<lparr>SessionID := Some sid, status := StatusReady,
                         handled := handled g1 @ [(t, s)]\<rparr>))
         else Returns Continue (g1\<lparr>handled := handled g1 @ [(t, s)]\<rparr>))"
| "listen_message g e HeartbeatRequest =
     andThen (sendHeartbeat g e) (\<lambda>_ g1. Returns Continue g1)"
| "listen_message g e Reconnect =
     andThen (CloseWithCode g CloseServiceRestart ''received reconnect'')
       (\<lambda>_ g1. Returns Break (g1\<lparr>spawned := spawned g1 @ [GoReconnect]\<rparr>))"
| "listen_message g e (InvalidSession canResume) =
     (let code = (if canResume then CloseServiceRestart else CloseNormalClosure);
          g1 = (if canResume then g else g\<lparr>SessionID := None, LastSequenceReceived := None\<rparr>)
      in andThen (CloseWithCode g1 code ''invalid session'')
           (\<lambda>_ g2. Returns Break (g2\<lparr>spawned := spawned g2 @ [GoReconnect]\<rparr>)))"
| "listen_message g e HeartbeatACK =
     Returns Continue (g\<lparr>lastHeartbeatReceived := now e\<rparr>)"

declare listen_message.simps [simp del]

subsection \<open>A read error in the listen loop\<close>

text \<open>
  What \<^verbatim>\<open>conn.NextReader\<close> can fail with: a websocket close error with code and text
  (a close frame from the server, or an abnormal closure), \<^verbatim>\<open>net.ErrClosed\<close>, or any
  other read failure.
\<close>

datatype read_error =
    CloseError int string
  | ErrClosed
  | ReadFailure string

text \<open>
  The classification of close codes belongs to package \<^verbatim>\<open>discord\<close>: the method
  \<^verbatim>\<open>ShouldReconnect\<close> and the two codes the branch compares against. They are
  parameters of the model.
\<close>

record close_codes =
  ShouldReconnect :: "int \<Rightarrow> bool"
  GatewayCloseEventCodeDisallowedIntents :: int
  GatewayCloseEventCodeInvalidSeq :: int

text \<open>
  \<open>listen_read_error\<close> is the branch of \<^verbatim>\<open>listen\<close> taken when reading the next
  message fails; \<open>c\<close> is the connection the loop reads from. The branch reads
  \<^verbatim>\<open>g.conn\<close> under the mutex and leaves the loop in every case. When it decides to
  reconnect it starts the reconnect goroutine and nothing else: the connection handle is
  not touched. Otherwise it calls \<^verbatim>\<open>Close\<close> and starts the close handler if one is
  set.
\<close>

definition listen_read_error ::
  "gatewayImpl \<Rightarrow> nat \<Rightarrow> close_codes \<Rightarrow> read_error \<Rightarrow> (loop_ctl, gatewayImpl) outcome" where
  "listen_read_error g c tbl err =
     (if connMu g then Blocks g
      else if conn g \<noteq> Some c then Returns Break g
      else (let reconnect =
                  (case err of
                     CloseError code text \<Rightarrow> ShouldReconnect tbl code
                   | ErrClosed \<Rightarrow> False
                   | ReadFailure text \<Rightarrow> True);
                g1 =
                  (case err of
                     CloseError code text \<Rightarrow>
                       if code = GatewayCloseEventCodeDisallowedIntents tbl then g
                       else if code = GatewayCloseEventCodeInvalidSeq tbl
                            then g\<lparr>LastSequenceReceived := None, SessionID := None\<rparr>
                            else g
                   | ErrClosed \<Rightarrow> g
                   | ReadFailure text \<Rightarrow> g)
            in if AutoReconnect g1 \<and> reconnect
               then Returns Break (g1\<lparr>spawned := spawned g1 @ [GoReconnect]\<rparr>)
               else andThen (Close g1)
                      (\<lambda>_ g2. Returns Break
                                 (if closeHandlerFunc g2
                                  then g2\<lparr>spawned := spawned g2 @ [GoCloseHandler]\<rparr>
                                  else g2))))"

subsection \<open>Example sessions\<close>

definition fresh_gateway :: gatewayImpl where
  "fresh_gateway =
     \<lparr>token = ''t'', ShardID = 0, ShardCount = 1, MaxReconnectTries = 10,
      AutoReconnect = True, closeHandlerFunc = False,
      SessionID = None, LastSequenceReceived = None,
      conn = None, connMu = False, heartbeatTicker = None, status = StatusUnconnected,
      heartbeatInterval = 0, lastHeartbeatSent = 0, lastHeartbeatReceived = 0,
      wire = [], closed_conns = [], rateLimiter = [], spawned = [], handled = []\<rparr>"

definition live_gateway :: gatewayImpl where
  "live_gateway =
     fresh_gateway\<lparr>SessionID := Some ''s1'', LastSequenceReceived := Some 17,
                   conn := Some 1, heartbeatTicker := Some 41250000000, status := StatusReady,
                   heartbeatInterval := 41250000000,
                   lastHeartbeatSent := 200, lastHeartbeatReceived := 100\<rparr>"

definition dropped_gateway :: gatewayImpl where
  "dropped_gateway =
     live_gateway\<lparr>conn := None, heartbeatTicker := None,
                  wire := [(1, CloseMessage 1012 ''heartbeat timeout'')],
                  closed_conns := [1], rateLimiter := [RLClose]\<rparr>"

definition resumed_gateway :: gatewayImpl where
  "resumed_gateway =
     dropped_gateway\<lparr>conn := Some 2, status := StatusWaitingForHello, lastHeartbeatSent := 300,
                     rateLimiter := [RLClose, RLReset], spawned := [GoListen 2]\<rparr>"

text \<open>
  An example classification: codes 4004 and 4010 to 4014 are not to be retried, every
  other code is; 4014 is disallowed intents and 4007 is invalid sequence.
\<close>

definition example_codes :: close_codes where
  "example_codes =
     \<lparr>ShouldReconnect = (\<lambda>code. code \<noteq> 4004 \<and> \<not> (4010 \<le> code \<and> code \<le> 4014)),
      GatewayCloseEventCodeDisallowedIntents = 4014,
      GatewayCloseEventCodeInvalidSeq = 4007\<rparr>"

definition calm :: env where
  "calm = \<lparr>now = 300, dial = Inr 2, marshal_err = None, wait_err = None, write_err = None\<rparr>"


section \<open>Properties of the availability bookkeeping\<close>

lemma apply_call_keeps_disjoint:
  assumes "unreadyGuilds c \<inter> unavailableGuilds c = {}" and "call_keeps_apart x c"
  shows "unreadyGuilds (apply_call x c) \<inter> unavailableGuilds (apply_call x c) = {}"
  using assms
  by (cases x)
     (auto simp: SetReady_def SetUnready_def SetUnavailable_def SetAvailable_def
                 Remove_def IsUnready_def IsUnavailable_def Let_def)

lemma run_calls_keeps_disjoint:
  "unreadyGuilds c \<inter> unavailableGuilds c = {} \<Longrightarrow> calls_keep_apart xs c \<Longrightarrow>
   unreadyGuilds (run_calls xs c) \<inter> unavailableGuilds (run_calls xs c) = {}"
proof (induction xs arbitrary: c)
  case Nil
  then show ?case by simp
next
  case (Cons x xs)
  from Cons.prems have step: "call_keeps_apart x c" and rest: "calls_keep_apart xs (apply_call x c)"
    by simp_all
  have "unreadyGuilds (apply_call x c) \<inter> unavailableGuilds (apply_call x c) = {}"
    using Cons.prems(1) step by (rule apply_call_keeps_disjoint)
  then show ?case using Cons.IH rest by simp
qed

text \<open>
  Claim C5, as stated, fails: the two sets are independent, and \<^verbatim>\<open>SetUnavailable\<close>
  followed by \<^verbatim>\<open>SetUnready\<close> of the same guild, from the empty cache, leaves the
  guild in both.
\<close>

theorem C5_both_sets_counterexample:
  "both_marked ''42''
     (run_calls [CallSetUnavailable ''42'', CallSetUnready ''42'']
        (NewGuildCache :: unit guildCacheImpl))"
  by (simp add: both_marked_def IsUnready_def IsUnavailable_def NewGuildCache_def
                SetUnready_def SetUnavailable_def Remove_def Let_def)

text \<open>
  Claim C5, amended: starting from the empty cache, after any sequence of calls in which
  \<^verbatim>\<open>SetUnready(p)\<close> is only applied while \<open>p\<close> is not unavailable and
  \<^verbatim>\<open>SetUnavailable(p)\<close> only while \<open>p\<close> is not unready, no guild id is in
  both the unready and the unavailable set.
\<close>

theorem C5_disjoint_under_discipline:
  assumes "calls_keep_apart xs (NewGuildCache :: 'g guildCacheImpl)"
  shows "\<not> both_marked p (run_calls xs (NewGuildCache :: 'g guildCacheImpl))"
proof -
  have "unreadyGuilds (NewGuildCache :: 'g guildCacheImpl)
          \<inter> unavailableGuilds (NewGuildCache :: 'g guildCacheImpl) = {}"
    by (simp add: NewGuildCache_def)
  then have "unreadyGuilds (run_calls xs (NewGuildCache :: 'g guildCacheImpl))
          \<inter> unavailableGuilds (run_calls xs (NewGuildCache :: 'g guildCacheImpl)) = {}"
    using assms by (rule run_calls_keeps_disjoint)
  then show ?thesis
    by (auto simp: both_marked_def IsUnready_def IsUnavailable_def)
qed

theorem C5_disjoint_under_discipline_witness:
  "calls_keep_apart [CallSetUnready ''7'', CallSetReady ''7'', CallSetUnavailable ''7'']
     (NewGuildCache :: unit guildCacheImpl)
   \<and> \<not> both_marked ''7''
         (run_calls [CallSetUnready ''7'', CallSetReady ''7'', CallSetUnavailable ''7'']
            (NewGuildCache :: unit guildCacheImpl))"
proof -
  have h: "calls_keep_apart [CallSetUnready ''7'', CallSetReady ''7'', CallSetUnavailable ''7'']
             (NewGuildCache :: unit guildCacheImpl)"
    by (simp add: IsUnready_def IsUnavailable_def NewGuildCache_def
                  SetUnready_def SetReady_def)
  from C5_disjoint_under_discipline [OF h, of "''7''"] h show ?thesis by simp
qed

text \<open>
  Claim C6, as stated, fails: after \<^verbatim>\<open>SetUnavailable\<close>, \<^verbatim>\<open>SetUnready\<close>,
  \<^verbatim>\<open>SetReady\<close> of one guild the guild is still in the unavailable set.
\<close>

theorem C6_still_unavailable_counterexample:
  "\<not> (\<not> IsUnavailable ''42''
          (SetReady ''42'' (SetUnready ''42'' (SetUnavailable ''42''
             (NewGuildCache :: unit guildCacheImpl))))
      \<and> \<not> IsUnready ''42''
          (SetReady ''42'' (SetUnready ''42'' (SetUnavailable ''42''
             (NewGuildCache :: unit guildCacheImpl)))))"
  by (simp add: IsUnready_def IsUnavailable_def NewGuildCache_def
                SetReady_def SetUnready_def SetUnavailable_def Remove_def Let_def)

text \<open>
  Claim C6, amended: from any starting state, \<^verbatim>\<open>SetUnavailable(p)\<close> then
  \<^verbatim>\<open>SetUnready(p)\<close> then \<^verbatim>\<open>SetReady(p)\<close> leaves \<open>p\<close> absent from the unready
  set and present in the unavailable set; the guild is also gone from the guild map, and
  a final \<^verbatim>\<open>SetAvailable(p)\<close> is what removes it from the unavailable set.
\<close>

theorem C6_unavailable_unready_ready:
  "\<not> IsUnready p (SetReady p (SetUnready p (SetUnavailable p c)))
   \<and> IsUnavailable p (SetReady p (SetUnready p (SetUnavailable p c)))
   \<and> guilds (SetReady p (SetUnready p (SetUnavailable p c))) p = None
   \<and> \<not> IsUnavailable p (SetAvailable p (SetReady p (SetUnready p (SetUnavailable p c))))"
  by (simp add: IsUnready_def IsUnavailable_def
                SetReady_def SetUnready_def SetUnavailable_def SetAvailable_def
                Remove_def Let_def)


section \<open>Properties of the chunk correlation\<close>

lemma HandleChunk_miss:
  "chunkingRequests m (Nonce payload) = None \<Longrightarrow> HandleChunk m payload = Returns () m"
  by (simp add: HandleChunk_def)

lemma cleanupRequest_removes:
  "cleanupRequest m request = Returns u m1 \<Longrightarrow> chunkingRequests m1 (nonce request) = None"
  by (auto simp: cleanupRequest_def chan_close_def split: if_splits)

lemma HandleChunk_final_retires:
  assumes "chunkingRequests m (Nonce payload) = Some request"
    and "nonce request = Nonce payload"
    and "chunks request = ChunkCount payload - 1"
    and "HandleChunk m payload = Returns u m1"
  shows "chunkingRequests m1 (Nonce payload) = None"
proof -
  from assms(1,3,4) obtain m0 u0 where
    fw: "forward_members m (GuildID payload) request (Members payload) = Returns u0 m0"
    and cl: "cleanupRequest m0 request = Returns u m1"
    by (cases "forward_members m (GuildID payload) request (Members payload)")
       (auto simp: HandleChunk_def)
  from cleanupRequest_removes [OF cl] assms(2) show ?thesis by simp
qed

text \<open>
  Claim C9: a chunk whose nonce is not in the map of open requests makes
  \<^verbatim>\<open>HandleChunk\<close> return normally with the manager unchanged: nothing is delivered to
  any channel, no request is modified and nothing is written to the member cache. This
  covers a nonce retired by its final chunk (second part: after the chunk that completes
  a request, any later chunk with that nonce changes nothing) and a nonce removed by
  cancellation (third part: after \<^verbatim>\<open>cleanupRequest\<close>, a chunk with that nonce changes
  nothing). A request is registered under its own nonce
  (\<^verbatim>\<open>requestGuildMembersChan\<close> stores it as \<^verbatim>\<open>m.chunkingRequests[nonce]\<close>), which
  is the condition \<open>nonce request = Nonce payload\<close> below.
\<close>

theorem C9_unknown_nonce_dropped:
  "(chunkingRequests m (Nonce payload) = None \<longrightarrow> HandleChunk m payload = Returns () m)
   \<and> (chunkingRequests m (Nonce payload) = Some request \<and> nonce request = Nonce payload
        \<and> chunks request = ChunkCount payload - 1 \<and> HandleChunk m payload = Returns () m1
        \<and> Nonce later = Nonce payload
      \<longrightarrow> HandleChunk m1 later = Returns () m1)
   \<and> (nonce request = Nonce payload \<and> cleanupRequest m request = Returns () m2
      \<longrightarrow> HandleChunk m2 payload = Returns () m2)"
proof (intro conjI impI)
  assume "chunkingRequests m (Nonce payload) = None"
  then show "HandleChunk m payload = Returns () m" by (rule HandleChunk_miss)
next
  assume h: "chunkingRequests m (Nonce payload) = Some request \<and> nonce request = Nonce payload
        \<and> chunks request = ChunkCount payload - 1 \<and> HandleChunk m payload = Returns () m1
        \<and> Nonce later = Nonce payload"
  then have "chunkingRequests m1 (Nonce payload) = None"
    using HandleChunk_final_retires by blast
  with h have "chunkingRequests m1 (Nonce later) = None" by simp
  then show "HandleChunk m1 later = Returns () m1" by (rule HandleChunk_miss)
next
  assume h: "nonce request = Nonce payload \<and> cleanupRequest m request = Returns () m2"
  then have "chunkingRequests m2 (nonce request) = None"
    using cleanupRequest_removes by blast
  with h have "chunkingRequests m2 (Nonce payload) = None" by simp
  then show "HandleChunk m2 payload = Returns () m2" by (rule HandleChunk_miss)
qed

lemma demo_final:
  "HandleChunk demo_manager (demo_chunk ''abc'') =
     Returns () (state_of (HandleChunk demo_manager (demo_chunk ''abc'')))"
  by (simp add: HandleChunk_def demo_manager_def demo_chunk_def demo_request_def
        cleanupRequest_def chan_close_def chan_send_def Let_def)

lemma demo_cancel:
  "cleanupRequest demo_manager demo_request =
     Returns () (state_of (cleanupRequest demo_manager demo_request))"
  by (simp add: demo_manager_def demo_request_def cleanupRequest_def chan_close_def)

text \<open>
  Witness for C9: with one open request \<open>''abc''\<close>, a chunk with nonce \<open>''zzz''\<close> is
  dropped; the single chunk of a one-chunk answer is delivered and retires the request,
  and the same chunk arriving again is dropped; after cancelling, the chunk is dropped.
\<close>

theorem C9_unknown_nonce_dropped_witness:
  "chunkingRequests demo_manager (Nonce (demo_chunk ''zzz'')) = None
   \<and> HandleChunk demo_manager (demo_chunk ''zzz'') = Returns () demo_manager
   \<and> chunkingRequests demo_manager (Nonce (demo_chunk ''abc'')) = Some demo_request
   \<and> received (chans (state_of (HandleChunk demo_manager (demo_chunk ''abc''))) 0)
       = [\<lparr>User_ID = 1, Nick = ''ann''\<rparr>]
   \<and> HandleChunk (state_of (HandleChunk demo_manager (demo_chunk ''abc''))) (demo_chunk ''abc'')
       = Returns () (state_of (HandleChunk demo_manager (demo_chunk ''abc'')))
   \<and> HandleChunk (state_of (cleanupRequest demo_manager demo_request)) (demo_chunk ''abc'')
       = Returns () (state_of (cleanupRequest demo_manager demo_request))"
proof -
  have miss: "chunkingRequests demo_manager (Nonce (demo_chunk ''zzz'')) = None"
    by (simp add: demo_manager_def demo_chunk_def)
  have hit: "chunkingRequests demo_manager (Nonce (demo_chunk ''abc'')) = Some demo_request"
    by (simp add: demo_manager_def demo_chunk_def)
  have same: "nonce demo_request = Nonce (demo_chunk ''abc'')"
    by (simp add: demo_request_def demo_chunk_def)
  have last: "chunks demo_request = ChunkCount (demo_chunk ''abc'') - 1"
    by (simp add: demo_request_def demo_chunk_def)
  have got: "received (chans (state_of (HandleChunk demo_manager (demo_chunk ''abc''))) 0)
       = [\<lparr>User_ID = 1, Nick = ''ann''\<rparr>]"
    by (simp add: HandleChunk_def demo_manager_def demo_chunk_def demo_request_def
          cleanupRequest_def chan_close_def chan_send_def Let_def)
  note a = C9_unknown_nonce_dropped [of demo_manager "demo_chunk ''zzz''"]
  note b = C9_unknown_nonce_dropped [of demo_manager "demo_chunk ''abc''" demo_request
              "state_of (HandleChunk demo_manager (demo_chunk ''abc''))" "demo_chunk ''abc''"
              "state_of (cleanupRequest demo_manager demo_request)"]
  from a miss have 1: "HandleChunk demo_manager (demo_chunk ''zzz'') = Returns () demo_manager"
    by blast
  from b hit same last demo_final demo_cancel show ?thesis using 1 miss got by blast
qed


section \<open>Properties of the gateway session\<close>

subsection \<open>Opening and reconnecting\<close>

lemma Open_Returns_None:
  "Open g e = Returns None g' \<Longrightarrow>
     conn g' \<noteq> None \<and> \<not> connMu g' \<and> SessionID g' = SessionID g
     \<and> LastSequenceReceived g' = LastSequenceReceived g \<and> token g' = token g
     \<and> wire g' = wire g"
  by (auto simp: Open_def Let_def Close_def CloseWithCode_def split: if_splits sum.splits)

lemma Open_Returns_Some:
  "Open g e = Returns (Some err) g' \<Longrightarrow> err = ErrGatewayAlreadyConnected"
  by (auto simp: Open_def Let_def Close_def CloseWithCode_def split: if_splits sum.splits)

lemma reconnectTry_success:
  assumes "reconnectTry g es n = Returns None g'"
  shows "conn g' \<noteq> None \<and> \<not> connMu g' \<and> SessionID g' = SessionID g
     \<and> LastSequenceReceived g' = LastSequenceReceived g \<and> token g' = token g
     \<and> wire g' = wire g"
proof -
  have more: "\<not> MaxReconnectTries g - 1 \<le> n"
  proof
    assume "MaxReconnectTries g - 1 \<le> n"
    then have "reconnectTry g es n
       = Returns (Some (ErrOther ''failed to reconnect. exceeded max reconnect tries'')) g"
      by (simp add: reconnectTry.simps)
    with assms show False by simp
  qed
  have "Open g (es n) = Returns None g'"
  proof (cases "Open g (es n)")
    case (Returns r g1)
    show ?thesis
    proof (cases r)
      case None
      with Returns more assms show ?thesis by (simp add: reconnectTry.simps [of g es n])
    next
      case (Some err)
      with Returns have "err = ErrGatewayAlreadyConnected" using Open_Returns_Some by blast
      with Some Returns more assms show ?thesis by (simp add: reconnectTry.simps [of g es n])
    qed
  next
    case (Blocks g1)
    with more assms show ?thesis by (simp add: reconnectTry.simps [of g es n])
  next
    case (Panics g1)
    with more assms show ?thesis by (simp add: reconnectTry.simps [of g es n])
  qed
  then show ?thesis by (rule Open_Returns_None)
qed

text \<open>
  Claim C3, as stated, fails: when the dial fails on a fresh session, \<^verbatim>\<open>Open\<close> calls
  \<^verbatim>\<open>Close\<close> while it still holds the connection mutex, \<^verbatim>\<open>CloseWithCode\<close> waits
  for that mutex, and the call never returns; the status at that point is Connecting,
  not Unconnected.
\<close>

theorem C3_open_failure_counterexample:
  "Open fresh_gateway (calm\<lparr>dial := Inl (ErrOther ''refused'')\<rparr>)
     = Blocks (fresh_gateway\<lparr>connMu := True, status := StatusConnecting,
                             lastHeartbeatSent := 300\<rparr>)"
  by (simp add: Open_def Close_def CloseWithCode_def fresh_gateway_def calm_def Let_def)

text \<open>
  Claim C3, amended: \<^verbatim>\<open>Open\<close> on a session without a connection sets the status to
  Connecting before it dials. If the dial succeeds, \<^verbatim>\<open>Open\<close> returns no error, with
  the connection stored and the status WaitingForHello. If the dial fails, the status is
  not put back to Unconnected: it is Connecting, and there is still no connection.
\<close>

theorem C3_open_status:
  assumes "\<not> connMu g" and "conn g = None"
  shows "(\<forall>c. dial e = Inr c \<longrightarrow>
            (\<exists>g'. Open g e = Returns None g' \<and> conn g' = Some c
                 \<and> status g' = StatusWaitingForHello))
    \<and> (\<forall>err. dial e = Inl err \<longrightarrow>
            status (state_of (Open g e)) = StatusConnecting
          \<and> conn (state_of (Open g e)) = None)"
  using assms by (auto simp: Open_def Close_def CloseWithCode_def Let_def)

text \<open>
  Witness for C3: the fresh session, once with a dial that succeeds and once with a dial
  that is refused.
\<close>

theorem C3_open_status_witness:
  "\<not> connMu fresh_gateway \<and> conn fresh_gateway = None \<and> dial calm = Inr 2
   \<and> conn (state_of (Open fresh_gateway calm)) = Some 2
   \<and> status (state_of (Open fresh_gateway calm)) = StatusWaitingForHello
   \<and> dial (calm\<lparr>dial := Inl (ErrOther ''refused'')\<rparr>) = Inl (ErrOther ''refused'')
   \<and> status (state_of (Open fresh_gateway (calm\<lparr>dial := Inl (ErrOther ''refused'')\<rparr>)))
       = StatusConnecting"
proof -
  have a: "\<not> connMu fresh_gateway" and b: "conn fresh_gateway = None"
    by (simp_all add: fresh_gateway_def)
  have d: "dial calm = Inr 2"
    "dial (calm\<lparr>dial := Inl (ErrOther ''refused'')\<rparr>) = Inl (ErrOther ''refused'')"
    by (simp_all add: calm_def)
  from C3_open_status [OF a b, of calm] d(1)
  obtain g' where "Open fresh_gateway calm = Returns None g'" "conn g' = Some 2"
    "status g' = StatusWaitingForHello"
    by blast
  then have 1: "conn (state_of (Open fresh_gateway calm)) = Some 2
     \<and> status (state_of (Open fresh_gateway calm)) = StatusWaitingForHello"
    by simp
  from C3_open_status [OF a b, of "calm\<lparr>dial := Inl (ErrOther ''refused'')\<rparr>"] d(2)
  have 2: "status (state_of (Open fresh_gateway (calm\<lparr>dial := Inl (ErrOther ''refused'')\<rparr>)))
       = StatusConnecting"
    by blast
  from a b d 1 2 show ?thesis by blast
qed

text \<open>
  Claim C10: \<^verbatim>\<open>Open\<close> called while a connection exists returns the
  already-connected error and leaves the whole session state as it was: connection
  handle, status, session id, last sequence and every other field.
\<close>

theorem C10_open_already_connected:
  assumes "\<not> connMu g" and "conn g \<noteq> None"
  shows "Open g e = Returns (Some ErrGatewayAlreadyConnected) g"
  using assms by (simp add: Open_def Let_def)

text \<open>Witness for C10: a second \<^verbatim>\<open>Open\<close> on the live example session.\<close>

theorem C10_open_already_connected_witness:
  "\<not> connMu live_gateway \<and> conn live_gateway \<noteq> None
   \<and> Open live_gateway calm = Returns (Some ErrGatewayAlreadyConnected) live_gateway"
proof -
  have a: "\<not> connMu live_gateway" by (simp add: live_gateway_def fresh_gateway_def)
  have b: "conn live_gateway \<noteq> None" by (simp add: live_gateway_def fresh_gateway_def)
  from C10_open_already_connected [OF a b, of calm] a b show ?thesis by simp
qed


subsection \<open>Closing\<close>

lemma CloseWithCode_token:
  "CloseWithCode h code message = Returns u h1 \<Longrightarrow> token h1 = token h"
  by (auto simp: CloseWithCode_def Let_def split: if_splits option.splits)

text \<open>
  Claim C7, as stated, fails: the resume data is cleared inside the branch that runs only
  when a connection exists. On a session whose connection is already gone, a close with
  the normal-closure code leaves session id and last sequence in place.
\<close>

theorem C7_close_without_connection_counterexample:
  "SessionID (state_of (CloseWithCode (live_gateway\<lparr>conn := None\<rparr>) CloseNormalClosure ''bye''))
     = Some ''s1''
   \<and> LastSequenceReceived
       (state_of (CloseWithCode (live_gateway\<lparr>conn := None\<rparr>) CloseNormalClosure ''bye''))
     = Some 17"
  by (simp add: CloseWithCode_def live_gateway_def fresh_gateway_def Let_def)

text \<open>
  Claim C7, amended: \<^verbatim>\<open>CloseWithCode\<close> clears the stored session id and last
  sequence if and only if a connection exists and the close code is normal closure or
  going away; in every other case both fields keep their prior values.
\<close>

theorem C7_close_clears_iff_graceful_and_connected:
  assumes "\<not> connMu g"
  shows "\<exists>g'. CloseWithCode g code message = Returns () g'
     \<and> SessionID g' =
         (if conn g \<noteq> None \<and> (code = CloseNormalClosure \<or> code = CloseGoingAway)
          then None else SessionID g)
     \<and> LastSequenceReceived g' =
         (if conn g \<noteq> None \<and> (code = CloseNormalClosure \<or> code = CloseGoingAway)
          then None else LastSequenceReceived g)"
  using assms by (cases "conn g") (simp_all add: CloseWithCode_def Let_def)

text \<open>
  Witness for C7: the live example session closed with going-away loses its resume data,
  and closed with service-restart keeps it.
\<close>

theorem C7_close_clears_iff_graceful_and_connected_witness:
  "\<not> connMu live_gateway
   \<and> SessionID (state_of (CloseWithCode live_gateway CloseGoingAway ''bye'')) = None
   \<and> LastSequenceReceived (state_of (CloseWithCode live_gateway CloseGoingAway ''bye'')) = None
   \<and> SessionID (state_of (CloseWithCode live_gateway CloseServiceRestart ''bye'')) = Some ''s1''
   \<and> LastSequenceReceived (state_of (CloseWithCode live_gateway CloseServiceRestart ''bye''))
       = Some 17"
proof -
  have a: "\<not> connMu live_gateway" by (simp add: live_gateway_def fresh_gateway_def)
  have c: "conn live_gateway \<noteq> None" "SessionID live_gateway = Some ''s1''"
    "LastSequenceReceived live_gateway = Some 17"
    by (simp_all add: live_gateway_def fresh_gateway_def)
  from C7_close_clears_iff_graceful_and_connected [OF a, of CloseGoingAway "''bye''"]
       C7_close_clears_iff_graceful_and_connected [OF a, of CloseServiceRestart "''bye''"]
       a c
  show ?thesis
    by (auto simp: CloseNormalClosure_def CloseGoingAway_def CloseServiceRestart_def)
qed

subsection \<open>Sending\<close>





subsection \<open>The handshake after Hello\<close>

lemma hello_identifies:
  assumes "\<not> connMu g" and "conn g = Some c"
    and "LastSequenceReceived g = None \<or> SessionID g = None"
  shows "\<exists>g'. listen_message g e (Hello ms) = Returns Continue g'
     \<and> status g' = StatusWaitingForReady
     \<and> wire g' = wire g @
         (if marshal_err e = None \<and> wait_err e = None
          then [(c, TextMessage GatewayOpcodeIdentify
                      (GatewayMessageDataIdentify (token g)
                         (if ShardCount g > 1 then Some (ShardID g, ShardCount g) else None)))]
          else [])"
proof (cases "marshal_err e")
  case None
  with assms show ?thesis
    by (cases "wait_err e") (auto simp: listen_message.simps identify_def Send_def send_def Let_def)
next
  case (Some err)
  with assms show ?thesis
    by (auto simp: listen_message.simps identify_def Send_def send_def Let_def)
qed

lemma hello_resumes:
  assumes "\<not> connMu g" and "conn g = Some c"
    and "SessionID g = Some sid" and "LastSequenceReceived g = Some sq"
  shows "\<exists>g'. listen_message g e (Hello ms) = Returns Continue g'
     \<and> status g' = StatusResuming
     \<and> wire g' = wire g @
         (if marshal_err e = None \<and> wait_err e = None
          then [(c, TextMessage GatewayOpcodeResume (GatewayMessageDataResume (token g) sid sq))]
          else [])"
proof (cases "marshal_err e")
  case None
  with assms show ?thesis
    by (cases "wait_err e") (auto simp: listen_message.simps resume_def Send_def send_def Let_def)
next
  case (Some err)
  with assms show ?thesis
    by (auto simp: listen_message.simps resume_def Send_def send_def Let_def)
qed


text \<open>
  The handshake choice: on a connected session, the Hello handler sends Identify (and
  leaves the status WaitingForReady) when the last sequence or the session id is absent,
  and sends Resume with the stored session id and sequence (status Resuming) when both are
  present. The frame reaches the connection when it encodes and the rate limiter grants a
  slot; otherwise nothing is written. Third part: after a close made by
  \<^verbatim>\<open>CloseWithCode\<close> that leaves session id and sequence in place, if the reconnect
  opens a new connection, the Hello handler writes the Resume frame with that session id
  and sequence to the new connection, and never an Identify frame.
\<close>

lemma hello_identify_or_resume:
  "(\<not> connMu g \<and> conn g = Some c \<and> (LastSequenceReceived g = None \<or> SessionID g = None)
      \<longrightarrow> (\<exists>g'. listen_message g e (Hello ms) = Returns Continue g'
             \<and> status g' = StatusWaitingForReady
             \<and> wire g' = wire g @
                 (if marshal_err e = None \<and> wait_err e = None
                  then [(c, TextMessage GatewayOpcodeIdentify
                              (GatewayMessageDataIdentify (token g)
                                 (if ShardCount g > 1 then Some (ShardID g, ShardCount g)
                                  else None)))]
                  else [])))
   \<and> (\<not> connMu g \<and> conn g = Some c \<and> SessionID g = Some sid \<and> LastSequenceReceived g = Some sq
      \<longrightarrow> (\<exists>g'. listen_message g e (Hello ms) = Returns Continue g'
             \<and> status g' = StatusResuming
             \<and> wire g' = wire g @
                 (if marshal_err e = None \<and> wait_err e = None
                  then [(c, TextMessage GatewayOpcodeResume
                              (GatewayMessageDataResume (token g) sid sq))]
                  else [])))
   \<and> (CloseWithCode h code message = Returns () h1
        \<and> SessionID h1 = Some sid \<and> LastSequenceReceived h1 = Some sq
        \<and> reconnectTry h1 es 0 = Returns None h2
      \<longrightarrow> (\<exists>c' h3. conn h2 = Some c'
             \<and> listen_message h2 e (Hello ms) = Returns Continue h3
             \<and> status h3 = StatusResuming
             \<and> wire h3 = wire h2 @
                 (if marshal_err e = None \<and> wait_err e = None
                  then [(c', TextMessage GatewayOpcodeResume
                               (GatewayMessageDataResume (token h) sid sq))]
                  else [])))"
proof (intro conjI impI)
  assume "\<not> connMu g \<and> conn g = Some c \<and> (LastSequenceReceived g = None \<or> SessionID g = None)"
  then show "\<exists>g'. listen_message g e (Hello ms) = Returns Continue g'
             \<and> status g' = StatusWaitingForReady
             \<and> wire g' = wire g @
                 (if marshal_err e = None \<and> wait_err e = None
                  then [(c, TextMessage GatewayOpcodeIdentify
                              (GatewayMessageDataIdentify (token g)
                                 (if ShardCount g > 1 then Some (ShardID g, ShardCount g)
                                  else None)))]
                  else [])"
    using hello_identifies by blast
next
  assume "\<not> connMu g \<and> conn g = Some c \<and> SessionID g = Some sid \<and> LastSequenceReceived g = Some sq"
  then show "\<exists>g'. listen_message g e (Hello ms) = Returns Continue g'
             \<and> status g' = StatusResuming
             \<and> wire g' = wire g @
                 (if marshal_err e = None \<and> wait_err e = None
                  then [(c, TextMessage GatewayOpcodeResume
                              (GatewayMessageDataResume (token g) sid sq))]
                  else [])"
    using hello_resumes by blast
next
  assume a: "CloseWithCode h code message = Returns () h1
        \<and> SessionID h1 = Some sid \<and> LastSequenceReceived h1 = Some sq
        \<and> reconnectTry h1 es 0 = Returns None h2"
  then have r: "conn h2 \<noteq> None \<and> \<not> connMu h2 \<and> SessionID h2 = SessionID h1
     \<and> LastSequenceReceived h2 = LastSequenceReceived h1 \<and> token h2 = token h1
     \<and> wire h2 = wire h1"
    using reconnectTry_success by blast
  then obtain c' where c': "conn h2 = Some c'" by auto
  from a have t: "token h1 = token h" using CloseWithCode_token by blast
  from r a have "\<not> connMu h2" "SessionID h2 = Some sid" "LastSequenceReceived h2 = Some sq"
    by simp_all
  from hello_resumes [OF this(1) c' this(2) this(3), of e ms]
  obtain h3 where h3: "listen_message h2 e (Hello ms) = Returns Continue h3"
    "status h3 = StatusResuming"
    "wire h3 = wire h2 @
       (if marshal_err e = None \<and> wait_err e = None
        then [(c', TextMessage GatewayOpcodeResume (GatewayMessageDataResume (token h2) sid sq))]
        else [])"
    by blast
  from r t have "token h2 = token h" by simp
  with h3(3) have "wire h3 = wire h2 @
       (if marshal_err e = None \<and> wait_err e = None
        then [(c', TextMessage GatewayOpcodeResume (GatewayMessageDataResume (token h) sid sq))]
        else [])"
    by simp
  with c' h3(1) h3(2)
  show "\<exists>c' h3. conn h2 = Some c'
             \<and> listen_message h2 e (Hello ms) = Returns Continue h3
             \<and> status h3 = StatusResuming
             \<and> wire h3 = wire h2 @
                 (if marshal_err e = None \<and> wait_err e = None
                  then [(c', TextMessage GatewayOpcodeResume
                               (GatewayMessageDataResume (token h) sid sq))]
                  else [])"
    by blast
qed

lemma demo_close:
  "CloseWithCode live_gateway CloseServiceRestart ''heartbeat timeout'' = Returns () dropped_gateway"
  by (simp add: CloseWithCode_def live_gateway_def fresh_gateway_def dropped_gateway_def Let_def
        CloseServiceRestart_def CloseNormalClosure_def CloseGoingAway_def)

lemma demo_reconnect:
  "reconnectTry dropped_gateway (\<lambda>_. calm) 0 = Returns None resumed_gateway"
  by (simp add: reconnectTry.simps Open_def live_gateway_def fresh_gateway_def
        dropped_gateway_def resumed_gateway_def calm_def Let_def)

text \<open>
  Example: a connected fresh session identifies; the live example session resumes; the
  live session closed with service-restart, reconnected and greeted with Hello resumes on
  the new connection.
\<close>

lemma hello_identify_or_resume_example:
  "wire (state_of (listen_message (fresh_gateway\<lparr>conn := Some 2, status := StatusWaitingForHello\<rparr>)
                     calm (Hello 41250)))
     = [(2, TextMessage GatewayOpcodeIdentify (GatewayMessageDataIdentify ''t'' None))]
   \<and> wire (state_of (listen_message live_gateway calm (Hello 41250)))
     = [(1, TextMessage GatewayOpcodeResume (GatewayMessageDataResume ''t'' ''s1'' 17))]
   \<and> CloseWithCode live_gateway CloseServiceRestart ''heartbeat timeout'' = Returns () dropped_gateway
   \<and> reconnectTry dropped_gateway (\<lambda>_. calm) 0 = Returns None resumed_gateway
   \<and> wire (state_of (listen_message resumed_gateway calm (Hello 41250)))
     = wire resumed_gateway
       @ [(2, TextMessage GatewayOpcodeResume (GatewayMessageDataResume ''t'' ''s1'' 17))]"
proof -
  let ?w = "fresh_gateway\<lparr>conn := Some 2, status := StatusWaitingForHello\<rparr>"
  have w: "\<not> connMu ?w \<and> conn ?w = Some 2
             \<and> (LastSequenceReceived ?w = None \<or> SessionID ?w = None)"
    "token ?w = ''t''" "wire ?w = []" "\<not> ShardCount ?w > 1"
    by (simp_all add: fresh_gateway_def)
  have l: "\<not> connMu live_gateway \<and> conn live_gateway = Some 1
             \<and> SessionID live_gateway = Some ''s1'' \<and> LastSequenceReceived live_gateway = Some 17"
    "token live_gateway = ''t''" "wire live_gateway = []"
    by (simp_all add: live_gateway_def fresh_gateway_def)
  have d: "SessionID dropped_gateway = Some ''s1''"
    "LastSequenceReceived dropped_gateway = Some 17" "conn resumed_gateway = Some 2"
    by (simp_all add: dropped_gateway_def resumed_gateway_def live_gateway_def fresh_gateway_def)
  have ok: "marshal_err calm = None \<and> wait_err calm = None" by (simp add: calm_def)
  note a = hello_identify_or_resume [of ?w 2 calm 41250]
  note b = hello_identify_or_resume [of live_gateway 1 calm 41250 "''s1''" 17]
  note c = hello_identify_or_resume [where h = live_gateway and code = CloseServiceRestart
      and message = "''heartbeat timeout''" and ?h1.0 = dropped_gateway and sid = "''s1''" and sq = 17
      and es = "\<lambda>_. calm" and ?h2.0 = resumed_gateway and e = calm and ms = 41250]
  from a w(1) obtain g1 where g1: "listen_message ?w calm (Hello 41250) = Returns Continue g1"
    "wire g1 = wire ?w @
       (if marshal_err calm = None \<and> wait_err calm = None
        then [(2, TextMessage GatewayOpcodeIdentify
                    (GatewayMessageDataIdentify (token ?w)
                       (if ShardCount ?w > 1 then Some (ShardID ?w, ShardCount ?w) else None)))]
        else [])"
    by blast
  from g1 w ok have 1: "wire (state_of (listen_message ?w calm (Hello 41250)))
     = [(2, TextMessage GatewayOpcodeIdentify (GatewayMessageDataIdentify ''t'' None))]"
    by simp
  from b l(1) obtain g2 where g2: "listen_message live_gateway calm (Hello 41250) = Returns Continue g2"
    "wire g2 = wire live_gateway @
       (if marshal_err calm = None \<and> wait_err calm = None
        then [(1, TextMessage GatewayOpcodeResume
                    (GatewayMessageDataResume (token live_gateway) ''s1'' 17))]
        else [])"
    by blast
  from g2 l ok have 2: "wire (state_of (listen_message live_gateway calm (Hello 41250)))
     = [(1, TextMessage GatewayOpcodeResume (GatewayMessageDataResume ''t'' ''s1'' 17))]"
    by simp
  from c demo_close demo_reconnect d(1,2)
  obtain c' g3 where g3: "conn resumed_gateway = Some c'"
    "listen_message resumed_gateway calm (Hello 41250) = Returns Continue g3"
    "wire g3 = wire resumed_gateway @
       (if marshal_err calm = None \<and> wait_err calm = None
        then [(c', TextMessage GatewayOpcodeResume
                     (GatewayMessageDataResume (token live_gateway) ''s1'' 17))]
        else [])"
    by blast
  from g3 d(3) l ok
  have 3: "wire (state_of (listen_message resumed_gateway calm (Hello 41250)))
     = wire resumed_gateway
       @ [(2, TextMessage GatewayOpcodeResume (GatewayMessageDataResume ''t'' ''s1'' 17))]"
    by simp
  from 1 2 3 demo_close demo_reconnect show ?thesis by simp
qed


subsection \<open>Reconnecting after a read error\<close>

lemma reconnectTry_finds_connection:
  assumes "\<not> connMu g" and "conn g \<noteq> None" and "n < MaxReconnectTries g - 1"
  shows "reconnectTry g es n = Returns (Some ErrGatewayAlreadyConnected) g"
proof -
  from assms(1,2) have "Open g (es n) = Returns (Some ErrGatewayAlreadyConnected) g"
    by (simp add: Open_def Let_def)
  with assms(3) show ?thesis by (simp add: reconnectTry.simps [of g es n])
qed

lemma reconnectTry_refused_dial_blocks:
  assumes "\<not> connMu g" and "conn g = None" and "n < MaxReconnectTries g - 1"
    and "dial (es n) = Inl err"
  shows "reconnectTry g es n
     = Blocks (g\<lparr>connMu := True, status := StatusConnecting, lastHeartbeatSent := now (es n),
                 heartbeatTicker := None\<rparr>)"
proof -
  from assms(1,2,4)
  have "Open g (es n)
     = Blocks (g\<lparr>connMu := True, status := StatusConnecting, lastHeartbeatSent := now (es n),
                 heartbeatTicker := None\<rparr>)"
    by (cases "heartbeatTicker g") (simp_all add: Open_def Close_def CloseWithCode_def Let_def)
  with assms(3) show ?thesis by (simp add: reconnectTry.simps [of g es n])
qed

text \<open>
  Claim C1 says that after every close that keeps session id and sequence, the reconnect
  that follows ends in a Resume frame. The code does not do this when the close is seen
  by the listen loop as a read error (a close frame from the server with a code that
  allows reconnecting, or a failed read). With automatic reconnect on, that branch starts
  the reconnect goroutine while the old connection handle is still stored; session id and
  sequence are kept. The reconnect then calls \<^verbatim>\<open>Open\<close>, which finds the handle,
  returns the already-connected error, and \<^verbatim>\<open>reconnectTry\<close> gives up with that error
  at once: the state is unchanged, no connection is opened, and no frame, so no Resume,
  is written. The other places that start a reconnect (the Reconnect and InvalidSession
  opcodes and a failed heartbeat) call \<^verbatim>\<open>CloseWithCode\<close> first, which clears the
  handle.
\<close>

theorem C1_read_error_reconnect_finds_connection:
  assumes "\<not> connMu g" and "conn g = Some c" and "AutoReconnect g"
    and "1 < MaxReconnectTries g"
    and "case err of
           CloseError code text \<Rightarrow>
             ShouldReconnect tbl code \<and> code \<noteq> GatewayCloseEventCodeInvalidSeq tbl
         | ErrClosed \<Rightarrow> False
         | ReadFailure text \<Rightarrow> True"
  shows "listen_read_error g c tbl err = Returns Break (g\<lparr>spawned := spawned g @ [GoReconnect]\<rparr>)
    \<and> reconnectTry (g\<lparr>spawned := spawned g @ [GoReconnect]\<rparr>) es 0
        = Returns (Some ErrGatewayAlreadyConnected) (g\<lparr>spawned := spawned g @ [GoReconnect]\<rparr>)"
proof
  from assms(1,2,3,5)
  show "listen_read_error g c tbl err = Returns Break (g\<lparr>spawned := spawned g @ [GoReconnect]\<rparr>)"
    by (cases err) (auto simp: listen_read_error_def Let_def)
next
  let ?g = "g\<lparr>spawned := spawned g @ [GoReconnect]\<rparr>"
  from assms(1,2,4) have "\<not> connMu ?g" "conn ?g \<noteq> None" "0 < MaxReconnectTries ?g - 1"
    by simp_all
  then show "reconnectTry ?g es 0 = Returns (Some ErrGatewayAlreadyConnected) ?g"
    by (rule reconnectTry_finds_connection)
qed

text \<open>
  The failing input for C1: the live example session (session id and sequence stored)
  whose listen loop reads a close error with code 4000.
\<close>

theorem C1_read_error_reconnect_finds_connection_witness:
  "listen_read_error live_gateway 1 example_codes (CloseError 4000 ''unknown error'')
     = Returns Break (live_gateway\<lparr>spawned := [GoReconnect]\<rparr>)
   \<and> reconnectTry (live_gateway\<lparr>spawned := [GoReconnect]\<rparr>) (\<lambda>_. calm) 0
     = Returns (Some ErrGatewayAlreadyConnected) (live_gateway\<lparr>spawned := [GoReconnect]\<rparr>)
   \<and> SessionID (live_gateway\<lparr>spawned := [GoReconnect]\<rparr>) = Some ''s1''
   \<and> LastSequenceReceived (live_gateway\<lparr>spawned := [GoReconnect]\<rparr>) = Some 17
   \<and> conn (live_gateway\<lparr>spawned := [GoReconnect]\<rparr>) = Some 1
   \<and> wire (live_gateway\<lparr>spawned := [GoReconnect]\<rparr>) = []"
proof -
  have a: "\<not> connMu live_gateway" "conn live_gateway = Some 1" "AutoReconnect live_gateway"
    "1 < MaxReconnectTries live_gateway" "spawned live_gateway = []"
    by (simp_all add: live_gateway_def fresh_gateway_def)
  have e: "case CloseError 4000 ''unknown error'' of
           CloseError code text \<Rightarrow>
             ShouldReconnect example_codes code
               \<and> code \<noteq> GatewayCloseEventCodeInvalidSeq example_codes
         | ErrClosed \<Rightarrow> False
         | ReadFailure text \<Rightarrow> True"
    by (simp add: example_codes_def)
  have r: "SessionID (live_gateway\<lparr>spawned := [GoReconnect]\<rparr>) = Some ''s1''
   \<and> LastSequenceReceived (live_gateway\<lparr>spawned := [GoReconnect]\<rparr>) = Some 17
   \<and> conn (live_gateway\<lparr>spawned := [GoReconnect]\<rparr>) = Some 1
   \<and> wire (live_gateway\<lparr>spawned := [GoReconnect]\<rparr>) = []"
    by (simp add: live_gateway_def fresh_gateway_def)
  from C1_read_error_reconnect_finds_connection [OF a(1) a(2) a(3) a(4) e, of "\<lambda>_. calm"] a(5) r
  show ?thesis by simp
qed



subsection \<open>Heartbeats\<close>

text \<open>
  Claim C2, as stated, fails: \<^verbatim>\<open>sendHeartbeat\<close> never compares the time of the last
  acknowledgement with the time of the last heartbeat. On the live example session the
  last heartbeat went out at 200 and the last acknowledgement came at 100; at the next
  beat the heartbeat is sent, the connection is kept and no reconnect is started.
\<close>

theorem C2_missed_ack_counterexample:
  "lastHeartbeatReceived live_gateway < lastHeartbeatSent live_gateway
   \<and> sendHeartbeat live_gateway calm
     = Returns ()
        (live_gateway\<lparr>lastHeartbeatSent := 300,
           wire := [(1, TextMessage GatewayOpcodeHeartbeat (GatewayMessageDataHeartbeat (Some 17)))],
           rateLimiter := [RLWait, RLUnlock]\<rparr>)
   \<and> conn (state_of (sendHeartbeat live_gateway calm)) = Some 1
   \<and> spawned (state_of (sendHeartbeat live_gateway calm)) = []"
  by (simp add: sendHeartbeat_def Send_def send_def live_gateway_def fresh_gateway_def calm_def
        Let_def)

text \<open>
  Claim C2, amended: on a live session a heartbeat beat performs the forced
  close-and-reconnect cycle exactly when sending the heartbeat returns an error other
  than not-connected; the cycle then closes the connection once with the service-restart
  code, stops the ticker, keeps session id and sequence, and starts exactly one
  reconnect. Otherwise the connection, the ticker and the started goroutines are as
  before and the send time is updated. Whether an acknowledgement has arrived plays no
  part: the outcome is the same for every value of the last acknowledgement time.
\<close>

theorem C2_heartbeat_reconnects_only_on_send_error:
  assumes "\<not> connMu g" and "conn g = Some c"
  shows "\<exists>err g1 g'.
      Send g e GatewayOpcodeHeartbeat (GatewayMessageDataHeartbeat (LastSequenceReceived g))
        = Returns err g1
    \<and> sendHeartbeat g e = Returns () g'
    \<and> lastHeartbeatReceived g' = lastHeartbeatReceived g
    \<and> (if err \<noteq> None \<and> err \<noteq> Some ErrShardNotConnected
        then conn g' = None \<and> heartbeatTicker g' = None
           \<and> spawned g' = spawned g @ [GoReconnect]
           \<and> closed_conns g' = closed_conns g @ [c]
           \<and> wire g' = wire g1 @ [(c, CloseMessage CloseServiceRestart ''heartbeat timeout'')]
           \<and> SessionID g' = SessionID g \<and> LastSequenceReceived g' = LastSequenceReceived g
        else conn g' = Some c \<and> heartbeatTicker g' = heartbeatTicker g
           \<and> spawned g' = spawned g \<and> closed_conns g' = closed_conns g
           \<and> wire g' = wire g1 \<and> lastHeartbeatSent g' = now e)
    \<and> sendHeartbeat (g\<lparr>lastHeartbeatReceived := t\<rparr>) e
        = Returns () (g'\<lparr>lastHeartbeatReceived := t\<rparr>)"
proof (cases "marshal_err e")
  case (Some x)
  with assms show ?thesis
    by (cases "x = ErrShardNotConnected")
       (simp_all add: sendHeartbeat_def Send_def send_def CloseWithCode_def Let_def
          CloseServiceRestart_def CloseNormalClosure_def CloseGoingAway_def)
next
  case None
  note m = None
  show ?thesis
  proof (cases "wait_err e")
    case (Some x)
    with m assms show ?thesis
      by (cases "x = ErrShardNotConnected")
         (simp_all add: sendHeartbeat_def Send_def send_def CloseWithCode_def Let_def
            CloseServiceRestart_def CloseNormalClosure_def CloseGoingAway_def)
  next
    case None
    note w = None
    show ?thesis
    proof (cases "write_err e")
      case None
      with m w assms show ?thesis
        by (simp add: sendHeartbeat_def Send_def send_def Let_def)
    next
      case (Some x)
      with m w assms show ?thesis
        by (cases "x = ErrShardNotConnected")
           (simp_all add: sendHeartbeat_def Send_def send_def CloseWithCode_def Let_def
              CloseServiceRestart_def CloseNormalClosure_def CloseGoingAway_def)
    qed
  qed
qed

text \<open>
  Witness for C2: the live example session with a write that succeeds (no cycle) and
  with a write that fails (one close, one reconnect).
\<close>

theorem C2_heartbeat_reconnects_only_on_send_error_witness:
  "\<not> connMu live_gateway \<and> conn live_gateway = Some 1
   \<and> conn (state_of (sendHeartbeat live_gateway calm)) = Some 1
   \<and> spawned (state_of (sendHeartbeat live_gateway calm)) = []
   \<and> conn (state_of (sendHeartbeat live_gateway
                        (calm\<lparr>write_err := Some (ErrOther ''broken pipe'')\<rparr>))) = None
   \<and> spawned (state_of (sendHeartbeat live_gateway
                           (calm\<lparr>write_err := Some (ErrOther ''broken pipe'')\<rparr>)))
       = [GoReconnect]
   \<and> closed_conns (state_of (sendHeartbeat live_gateway
                                (calm\<lparr>write_err := Some (ErrOther ''broken pipe'')\<rparr>)))
       = [1]"
proof -
  let ?bad = "calm\<lparr>write_err := Some (ErrOther ''broken pipe'')\<rparr>"
  let ?beat = "GatewayMessageDataHeartbeat (LastSequenceReceived live_gateway)"
  have a: "\<not> connMu live_gateway" and b: "conn live_gateway = Some 1"
    and c: "spawned live_gateway = []" "closed_conns live_gateway = []"
    by (simp_all add: live_gateway_def fresh_gateway_def)
  have ok: "\<exists>g1. Send live_gateway calm GatewayOpcodeHeartbeat ?beat = Returns None g1"
    by (simp add: Send_def send_def live_gateway_def fresh_gateway_def calm_def Let_def)
  have bad: "\<exists>g1. Send live_gateway ?bad GatewayOpcodeHeartbeat ?beat
                 = Returns (Some (ErrOther ''broken pipe'')) g1"
    by (simp add: Send_def send_def live_gateway_def fresh_gateway_def calm_def Let_def)
  from C2_heartbeat_reconnects_only_on_send_error [OF a b, of calm 0] ok
  have 1: "conn (state_of (sendHeartbeat live_gateway calm)) = Some 1
     \<and> spawned (state_of (sendHeartbeat live_gateway calm)) = spawned live_gateway"
    by auto
  from C2_heartbeat_reconnects_only_on_send_error [OF a b, of ?bad 0] bad
  have 2: "conn (state_of (sendHeartbeat live_gateway ?bad)) = None
     \<and> spawned (state_of (sendHeartbeat live_gateway ?bad)) = spawned live_gateway @ [GoReconnect]
     \<and> closed_conns (state_of (sendHeartbeat live_gateway ?bad))
         = closed_conns live_gateway @ [1]"
    by auto
  from a b c 1 2 show ?thesis by simp
qed

lemma hello_interval:
  "listen_message g e (Hello ms) = Returns Continue g2 \<Longrightarrow>
     heartbeatInterval g2 = ms * 1000000 \<and> spawned g2 = spawned g @ [GoHeartbeat]"
  by (auto simp: listen_message.simps identify_def resume_def Send_def send_def Let_def
        split: if_splits option.splits)


text \<open>
  Claim C8, as stated, fails: the heartbeat goroutine starts a plain ticker with the stored
  interval and draws no random number. With the interval of 41.25 seconds the first beat
  is due exactly 41.25 seconds after the ticker is created, not earlier.
\<close>

theorem C8_first_beat_counterexample:
  "first_beat_due (state_of (heartbeat live_gateway)) = Some 41250000000
   \<and> sint (heartbeatInterval live_gateway) = 41250000000"
  by (simp add: first_beat_due_def heartbeat_def NewTicker_def tick_due_def
        live_gateway_def fresh_gateway_def)

text \<open>
  Claim C8, amended: when the heartbeat loop starts with a positive stored interval, it
  creates a ticker whose period is exactly that interval, so the first heartbeat is due
  one full interval after the start, with no random offset; with an interval that is not
  positive the ticker creation panics. The Hello handler stores the server's interval
  (milliseconds, as nanoseconds) and starts one heartbeat goroutine.
\<close>

theorem C8_first_beat_after_full_interval:
  "(0 < sint (heartbeatInterval g) \<longrightarrow>
      heartbeat g = Returns () (g\<lparr>heartbeatTicker := Some (heartbeatInterval g)\<rparr>)
    \<and> first_beat_due (g\<lparr>heartbeatTicker := Some (heartbeatInterval g)\<rparr>)
        = Some (sint (heartbeatInterval g)))
   \<and> (sint (heartbeatInterval g) \<le> 0 \<longrightarrow> heartbeat g = Panics g)
   \<and> (listen_message g0 e (Hello ms) = Returns Continue g \<longrightarrow>
        heartbeatInterval g = ms * 1000000 \<and> spawned g = spawned g0 @ [GoHeartbeat])"
  using hello_interval [of g0 e ms g]
  by (simp add: heartbeat_def NewTicker_def first_beat_due_def tick_due_def)


text \<open>
  Witness for C8: the live example session's ticker, a session with interval zero, and
  Hello with 41250 milliseconds on the live session.
\<close>

theorem C8_first_beat_after_full_interval_witness:
  "0 < sint (heartbeatInterval live_gateway)
   \<and> first_beat_due (state_of (heartbeat live_gateway)) = Some 41250000000
   \<and> sint (heartbeatInterval fresh_gateway) \<le> 0
   \<and> heartbeat fresh_gateway = Panics fresh_gateway
   \<and> heartbeatInterval (state_of (listen_message live_gateway calm (Hello 41250))) = 41250000000"
proof -
  have a: "0 < sint (heartbeatInterval live_gateway)"
    "sint (heartbeatInterval live_gateway) = 41250000000"
    by (simp_all add: live_gateway_def fresh_gateway_def)
  have b: "sint (heartbeatInterval fresh_gateway) \<le> 0"
    by (simp add: fresh_gateway_def)
  have h: "listen_message live_gateway calm (Hello 41250)
             = Returns Continue (state_of (listen_message live_gateway calm (Hello 41250)))"
    by (simp add: listen_message.simps resume_def Send_def send_def live_gateway_def
          fresh_gateway_def calm_def Let_def)
  from C8_first_beat_after_full_interval [of live_gateway] a
  have 1: "first_beat_due (state_of (heartbeat live_gateway)) = Some 41250000000"
    by simp
  from C8_first_beat_after_full_interval [of fresh_gateway] b
  have 2: "heartbeat fresh_gateway = Panics fresh_gateway"
    by blast
  from C8_first_beat_after_full_interval
         [of "state_of (listen_message live_gateway calm (Hello 41250))" live_gateway calm 41250] h
  have 3: "heartbeatInterval (state_of (listen_message live_gateway calm (Hello 41250)))
             = 41250 * 1000000"
    by blast
  from a(1) b 1 2 3 show ?thesis by simp
qed

end
